theory Spec2Isabelle
  imports Main "HOL-Library.Word"
begin

section \<open>The work-queue parser of PrMers (io/WorktodoParser)\<close>

text \<open>
  A shallow embedding of \<^verbatim>\<open>src/io/WorktodoParser.cpp\<close> and
  \<^verbatim>\<open>include/io/WorktodoParser.hpp\<close>. Strings are byte lists, the vector
  \<^verbatim>\<open>parts\<close> is a list of strings consumed from the front, the entry that
  the helpers mutate in place is passed in and returned, and what the code prints on
  \<^verbatim>\<open>std::cerr\<close> (a reason) or \<^verbatim>\<open>std::cout\<close> (the residue
  warning) is returned as a list of diagnostics.

  Four callees are not part of these two files:
  \<^item> \<^verbatim>\<open>math::Cofactor::validateFactors\<close> is the parameter \<open>validate\<close>;
  \<^item> \<^verbatim>\<open>static_cast<uint64_t>(std::stod(s))\<close>, a floating-point conversion
    of the C++ library, is the parameter \<open>stod64\<close>, \<open>None\<close> when it throws;
  \<^item> \<^verbatim>\<open>util::split\<close> and \<^verbatim>\<open>parseMaybeFactors\<close>, which the sources
    call and do not define, are \<open>split\<close> and \<open>parseMaybeFactors\<close> below.

  The sources as given read \<^verbatim>\<open>parts.size >= 2\<close> (line 252) and
  \<^verbatim>\<open>knownfactors.length() > 0 && knownfactors[0] == "3"\<close> (header, line 41);
  they are taken as \<^verbatim>\<open>parts.size() >= 2\<close> and as the same test on
  \<^verbatim>\<open>knownFactors\<close>. The lambda \<^verbatim>\<open>trim_inplace\<close> of
  \<^verbatim>\<open>parse\<close> is never called and is left out.
\<close>

subsection \<open>Characters and the integer conversions of the C++ library\<close>

text \<open>
  The character classes of the "C" locale. A character above 0x7F is in none of them
  (for \<^verbatim>\<open>std::isspace\<close> in \<^verbatim>\<open>parseFactors\<close>, which is given a plain
  \<^verbatim>\<open>char\<close>, that is the usual result and not a guarantee).
\<close>

definition isspace_c :: "char \<Rightarrow> bool" where
  "isspace_c ch = (ch \<in> set [CHR 0x20, CHR 0x09, CHR 0x0A, CHR 0x0B, CHR 0x0C, CHR 0x0D])"

definition isdigit_c :: "char \<Rightarrow> bool" where
  "isdigit_c ch = (ch \<in> set ''0123456789'')"

definition isxdigit_c :: "char \<Rightarrow> bool" where
  "isxdigit_c ch = (ch \<in> set ''0123456789abcdefABCDEF'')"

definition dquote :: char where
  "dquote = CHR 0x22"

definition newline :: char where
  "newline = CHR 0x0A"

definition digits_val :: "string \<Rightarrow> nat" where
  "digits_val ds = foldl (\<lambda>a ch. 10 * a + (of_char ch - 48)) 0 ds"

fun skip_sign :: "string \<Rightarrow> bool \<times> string" where
  "skip_sign [] = (False, [])"
| "skip_sign (ch # s) =
     (if ch = CHR ''-'' then (True, s)
      else if ch = CHR ''+'' then (False, s)
      else (False, ch # s))"

text \<open>
  What \<^verbatim>\<open>strtol\<close>, \<^verbatim>\<open>strtoul\<close> and \<^verbatim>\<open>strtoull\<close> read in base 10:
  leading white space, an optional sign, then the longest run of digits; what follows
  the digits is ignored. \<open>None\<close> when there is no digit (the \<^verbatim>\<open>std::sto*\<close>
  wrappers throw \<^verbatim>\<open>std::invalid_argument\<close>).
\<close>

definition scan_int :: "string \<Rightarrow> (bool \<times> nat) option" where
  "scan_int s =
     (case skip_sign (dropWhile isspace_c s) of
        (neg, r) \<Rightarrow>
          (let ds = takeWhile isdigit_c r
           in if ds = [] then None else Some (neg, digits_val ds)))"

text \<open>
  \<^verbatim>\<open>std::stoul\<close> with a 64-bit \<^verbatim>\<open>unsigned long\<close> (LP64) and
  \<^verbatim>\<open>std::stoull\<close>: a magnitude above \<open>2^64 - 1\<close> throws
  \<^verbatim>\<open>std::out_of_range\<close>, a minus sign negates modulo \<open>2^64\<close>.
\<close>

definition stoul :: "string \<Rightarrow> 64 word option" where
  "stoul s =
     (case scan_int s of
        None \<Rightarrow> None
      | Some (neg, m) \<Rightarrow>
          if 2 ^ 64 \<le> m then None
          else Some (if neg then - word_of_nat m else word_of_nat m))"

definition stoull :: "string \<Rightarrow> 64 word option" where
  "stoull s = stoul s"

text \<open>\<^verbatim>\<open>std::stoi\<close>: throws outside the range of \<^verbatim>\<open>int\<close>.\<close>

definition stoi :: "string \<Rightarrow> int option" where
  "stoi s =
     (case scan_int s of
        None \<Rightarrow> None
      | Some (neg, m) \<Rightarrow>
          (let v = (if neg then - int m else int m)
           in if v < - (2 ^ 31) \<or> 2 ^ 31 - 1 < v then None else Some v))"

subsection \<open>Splitting\<close>

text \<open>
  A loop of \<^verbatim>\<open>std::getline(stream, item, delim)\<close> until it fails: every
  delimiter ends an item, and what follows the last delimiter is an item unless it is
  empty. \<open>cur\<close> is the item being read.
\<close>

fun getline_all :: "char \<Rightarrow> string \<Rightarrow> string \<Rightarrow> string list" where
  "getline_all d [] cur = (if cur = [] then [] else [cur])"
| "getline_all d (ch # s) cur =
     (if ch = d then cur # getline_all d s [] else getline_all d s (cur @ [ch]))"

text \<open>The lines that \<^verbatim>\<open>while (std::getline(file, line))\<close> visits.\<close>

definition getlines :: "string \<Rightarrow> string list" where
  "getlines text = getline_all newline text []"

text \<open>
  Modelled from the spec: \<^verbatim>\<open>util::split\<close> (util/StringUtils.hpp is not among
  the sources), the spec's \<open>split(text, delimiter) -> sequence of text\<close>, a generic
  tokenizer: the text is cut at every delimiter, as a \<^verbatim>\<open>std::getline\<close> loop
  and as \<open>splitRespectingQuotes\<close> below do. The spec does not say whether an empty
  item is kept; this loop keeps one that a delimiter ends. No text that is split in an
  example below has an empty item, and no theorem below says whether one is kept.
\<close>

definition split :: "string \<Rightarrow> char \<Rightarrow> string list" where
  "split s delim = getline_all delim s []"

text \<open>
  \<^verbatim>\<open>splitRespectingQuotes\<close>: the loop over the characters, with the
  \<^verbatim>\<open>current\<close> token and the \<^verbatim>\<open>inQuotes\<close> flag as arguments.
\<close>

fun splitQ :: "char \<Rightarrow> string \<Rightarrow> string \<Rightarrow> bool \<Rightarrow> string list" where
  "splitQ delim [] current inQuotes = (if current = [] then [] else [current])"
| "splitQ delim (ch # s) current inQuotes =
     (if ch = dquote then splitQ delim s (current @ [ch]) (\<not> inQuotes)
      else if ch = delim \<and> \<not> inQuotes then current # splitQ delim s [] inQuotes
      else splitQ delim s (current @ [ch]) inQuotes)"

definition splitRespectingQuotes :: "string \<Rightarrow> char \<Rightarrow> string list" where
  "splitRespectingQuotes s delim = splitQ delim s [] False"

definition isHex :: "string \<Rightarrow> bool" where
  "isHex s = (if length s \<noteq> 32 then False else list_all isxdigit_c s)"

subsection \<open>The entry\<close>

datatype TestType = TESTTYPE_UNSUPPORTED | TESTTYPE_PRP | TESTTYPE_LL | TESTTYPE_PM1

text \<open>
  The union \<^verbatim>\<open>options\<close> as a tagged value: \<open>factoring B1 B2\<close> or
  \<open>primality residueType\<close>.
\<close>

datatype Options =
    factoring (B1: "64 word") (B2: "64 word")
  | primality (residueType: "32 word")

record WorktodoEntry =
  testType :: TestType
  exponent :: "32 word"
  k :: "32 word"
  b :: "32 word"
  c :: int
  aid :: string
  rawLine :: string
  knownFactors :: "string list"
  options :: Options

definition isMersenne :: "WorktodoEntry \<Rightarrow> bool" where
  "isMersenne e = (k e = 1 \<and> b e = 2 \<and> c e = - 1)"

definition isWagstaff :: "WorktodoEntry \<Rightarrow> bool" where
  "isWagstaff e =
     (k e = 1 \<and> b e = 2 \<and> c e = 1 \<and> 0 < length (knownFactors e)
      \<and> hd (knownFactors e) = ''3'')"

text \<open>
  \<^verbatim>\<open>WorktodoEntry entry;\<close> followed by the assignment of \<^verbatim>\<open>testType\<close>:
  every field has its default member initializer, and the union holds the arm of the
  test type (\<^verbatim>\<open>residueType = 1\<close>, or \<^verbatim>\<open>B1 = 0, B2 = 0\<close>).
\<close>

definition newEntry :: "TestType \<Rightarrow> WorktodoEntry" where
  "newEntry tt =
     \<lparr> testType = tt, exponent = 0, k = 0, b = 0, c = 0, aid = [], rawLine = [],
       knownFactors = [],
       options = (if tt = TESTTYPE_PM1 then factoring 0 0 else primality 1) \<rparr>"

text \<open>
  What a line prints: a reason on \<^verbatim>\<open>std::cerr\<close>, or the warning of a PRP line
  whose residue type (first) is not the expected one (second), on \<^verbatim>\<open>std::cout\<close>.
\<close>

datatype Diag = Reason string | ResidueWarning "32 word" "32 word"

subsection \<open>The field parsers\<close>

text \<open>
  \<^verbatim>\<open>parseFactors\<close>: trailing white space is dropped; a text of at least two
  characters that starts and ends with a double quote gives the split of what is
  between them, anything else the empty list.
\<close>

definition rtrim :: "string \<Rightarrow> string" where
  "rtrim s = rev (dropWhile isspace_c (rev s))"

definition parseFactors :: "string \<Rightarrow> string list" where
  "parseFactors factorStr =
     (let trimmed = rtrim factorStr
      in if 2 \<le> length trimmed \<and> hd trimmed = dquote \<and> last trimmed = dquote
         then split (take (length trimmed - 2) (drop 1 trimmed)) CHR '',''
         else [])"

text \<open>
  Each helper below takes the entry and the parts and returns its \<^verbatim>\<open>bool\<close>
  with the entry and the parts as it leaves them, and what it printed.
\<close>

type_synonym step = "bool \<times> WorktodoEntry \<times> string list \<times> Diag list"

definition parsePartsFactors :: "WorktodoEntry \<Rightarrow> string list \<Rightarrow> step" where
  "parsePartsFactors entry parts =
     (if parts = [] then (False, entry, parts, [])
      else (let kf = parseFactors (last parts)
            in if kf \<noteq> [] then (True, entry\<lparr>knownFactors := kf\<rparr>, butlast parts, [])
               else (True, entry, parts, [])))"

text \<open>
  Modelled from the spec: \<^verbatim>\<open>parseMaybeFactors\<close>, which \<^verbatim>\<open>parse\<close> calls for
  PFactor and Pminus1 lines and which the sources do not define. The spec: "Any
  remaining single trailing token, if it parses as a quoted comma list, becomes
  knownFactors (absence is not an error)", and for Pminus1 "Remaining trailing token,
  if present and quoted-list-shaped, becomes knownFactors". So it never fails; the
  trailing token is read as \<open>parsePartsFactors\<close> reads it. (\<open>parsePartsFactors\<close>
  itself returns false when no part is left; in its place a Pminus1 line with nothing
  after how-far-factored would be skipped.)
\<close>

definition parseMaybeFactors :: "WorktodoEntry \<Rightarrow> string list \<Rightarrow> step" where
  "parseMaybeFactors entry parts =
     (if parts = [] then (True, entry, parts, [])
      else (let kf = parseFactors (last parts)
            in if kf \<noteq> [] then (True, entry\<lparr>knownFactors := kf\<rparr>, butlast parts, [])
               else (True, entry, parts, [])))"

text \<open>
  \<^verbatim>\<open>parseKbnc\<close>: the four assignments happen in order, so a conversion that
  throws leaves the fields assigned before it (the \<^verbatim>\<open>catch\<close> returns false
  and prints nothing).
\<close>

definition parseKbnc :: "WorktodoEntry \<Rightarrow> string list \<Rightarrow> step" where
  "parseKbnc entry kbnc =
     (if length kbnc < 4 then (False, entry, kbnc, [Reason ''Skip: not enough parts for k,b,n,c''])
      else
        (case stoul (kbnc ! 0) of
           None \<Rightarrow> (False, entry, kbnc, [])
         | Some vk \<Rightarrow>
        (let e1 = entry\<lparr>k := ucast vk\<rparr> in
         case stoul (kbnc ! 1) of
           None \<Rightarrow> (False, e1, kbnc, [])
         | Some vb \<Rightarrow>
        (let e2 = e1\<lparr>b := ucast vb\<rparr> in
         case stoul (kbnc ! 2) of
           None \<Rightarrow> (False, e2, kbnc, [])
         | Some vn \<Rightarrow>
        (let e3 = e2\<lparr>exponent := ucast vn\<rparr> in
         case stoi (kbnc ! 3) of
           None \<Rightarrow> (False, e3, kbnc, [])
         | Some vc \<Rightarrow>
        (let e4 = e3\<lparr>c := vc\<rparr> in
         if k e4 = 0 \<or> b e4 < 2 \<or> exponent e4 = 0
         then (False, e4, kbnc, [Reason ''Skip: invalid k,b,n,c values''])
         else (True, e4, drop 4 kbnc, [])))))))"

definition parseExponent :: "WorktodoEntry \<Rightarrow> string list \<Rightarrow> step" where
  "parseExponent entry parts =
     (if parts = [] then (False, entry, parts, [])
      else
        (case stoul (parts ! 0) of
           None \<Rightarrow> (False, entry, parts, [])
         | Some vn \<Rightarrow>
             (let e1 = entry\<lparr>exponent := ucast vn\<rparr>
              in if exponent e1 = 0 then (False, e1, parts, [Reason ''Skip: invalid exponent 0''])
                 else (True, e1, tl parts, []))))"

text \<open>
  \<^verbatim>\<open>parseExponentOrKbnc\<close> reads \<^verbatim>\<open>parts[0]\<close> without a test that the
  vector has an element: on no parts the behaviour is undefined, here \<open>None\<close>. When
  \<open>parseKbnc\<close> fails on a first token "1", \<open>parseExponent\<close> runs on the entry
  and the parts as \<open>parseKbnc\<close> left them, after what it printed.
\<close>

definition parseExponentOrKbnc :: "WorktodoEntry \<Rightarrow> string list \<Rightarrow> step option" where
  "parseExponentOrKbnc entry parts =
     (if parts = [] then None
      else if parts ! 0 = ''1'' then
        (case parseKbnc entry parts of
           (ok, e1, p1, m1) \<Rightarrow>
             if ok then Some (True, e1, p1, m1)
             else (case parseExponent e1 p1 of
                     (ok2, e2, p2, m2) \<Rightarrow> Some (ok2, e2, p2, m1 @ m2)))
      else Some (parseExponent entry parts))"

definition parseMandatorySomething :: "string list \<Rightarrow> bool \<times> string list" where
  "parseMandatorySomething parts = (if parts = [] then (False, parts) else (True, tl parts))"

text \<open>
  \<^verbatim>\<open>parseFactoringOpts\<close>: \<open>B1\<close> is assigned before \<open>B2\<close> is converted;
  \<open>stod64\<close> stands for \<^verbatim>\<open>static_cast<uint64_t>(std::stod(parts[1]))\<close>.
\<close>

definition parseFactoringOpts ::
  "(string \<Rightarrow> 64 word option) \<Rightarrow> WorktodoEntry \<Rightarrow> string list \<Rightarrow> step" where
  "parseFactoringOpts stod64 entry parts =
     (if length parts < 2 then (False, entry, parts, [Reason ''Skip: not enough parts for B1,B2''])
      else
        (case stoull (parts ! 0) of
           None \<Rightarrow> (False, entry, parts, [])
         | Some v1 \<Rightarrow>
        (let e1 = entry\<lparr>options := factoring v1 (B2 (options entry))\<rparr> in
         case stod64 (parts ! 1) of
           None \<Rightarrow> (False, e1, parts, [])
         | Some v2 \<Rightarrow>
        (let e2 = e1\<lparr>options := factoring v1 v2\<rparr> in
         if B1 (options e2) = 0 \<or> B2 (options e2) < B1 (options e2)
         then (False, e2, parts, [Reason ''Skip: invalid B1,B2 values''])
         else (True, e2, drop 2 parts, [])))))"

subsection \<open>One line of the work file\<close>

text \<open>
  What the body of the loop of \<^verbatim>\<open>WorktodoParser::parse\<close> does with one line:
  \<open>Skipped\<close> is a \<^verbatim>\<open>continue\<close> (with what was printed), \<open>Loaded\<close> is
  \<^verbatim>\<open>return entry\<close>, \<open>Undefined\<close> is the read of \<^verbatim>\<open>parts[0]\<close> on an
  empty vector. The text of \<^verbatim>\<open>"Loaded " << entry.toString()\<close> is left out.
\<close>

datatype Outcome = Skipped "Diag list" | Loaded WorktodoEntry "Diag list" | Undefined

definition parsePF ::
  "(string \<Rightarrow> 64 word option) \<Rightarrow> WorktodoEntry \<Rightarrow> string list \<Rightarrow> Outcome" where
  "parsePF stod64 entry parts =
     (case parseExponentOrKbnc entry parts of
        None \<Rightarrow> Undefined
      | Some (ok1, e1, p1, m1) \<Rightarrow>
          if \<not> ok1 then Skipped m1
          else if \<not> isMersenne e1
          then Skipped (m1 @ [Reason ''Skip unsupported PFactor line (only Mersenne supported)''])
          else
       (case parseMandatorySomething p1 of
          (ok2, p2) \<Rightarrow>
            if \<not> ok2 then Skipped (m1 @ [Reason ''Bad PFactor line (missing how_far_factored)''])
            else
       (case parseMandatorySomething p2 of
          (ok3, p3) \<Rightarrow>
            if \<not> ok3
            then Skipped (m1 @ [Reason ''Bad PFactor line (missing ll_tests_saved_if_factor_found)''])
            else
       (case parseFactoringOpts stod64 e1 p3 of
          (ok4, e4, p4, m4) \<Rightarrow>
            if \<not> ok4 then Skipped (m1 @ m4)
            else
       (case parseMaybeFactors e4 p4 of
          (ok5, e5, p5, m5) \<Rightarrow> Loaded e5 (m1 @ m4 @ m5))))))"

definition parsePM1 ::
  "(string \<Rightarrow> 64 word option) \<Rightarrow> WorktodoEntry \<Rightarrow> string list \<Rightarrow> Outcome" where
  "parsePM1 stod64 entry parts =
     (case parseKbnc entry parts of
        (ok1, e1, p1, m1) \<Rightarrow>
          if \<not> ok1 then Skipped m1
          else if \<not> isMersenne e1
          then Skipped (m1 @ [Reason ''Skip unsupported Pminus1 line (only Mersenne supported)''])
          else
       (case parseFactoringOpts stod64 e1 p1 of
          (ok2, e2, p2, m2) \<Rightarrow>
            if \<not> ok2 then Skipped (m1 @ m2)
            else
       (case parseMandatorySomething p2 of
          (ok3, p3) \<Rightarrow>
            if \<not> ok3
            then Skipped (m1 @ m2 @ [Reason ''Bad Pminus1 line (missing how_far_factored)''])
            else
       (case parseMaybeFactors e2 p3 of
          (ok4, e4, p4, m4) \<Rightarrow>
            if \<not> ok4 then Skipped (m1 @ m2 @ m4) else Loaded e4 (m1 @ m2 @ m4)))))"

definition parseLL :: "WorktodoEntry \<Rightarrow> string list \<Rightarrow> Outcome" where
  "parseLL entry parts =
     (case parseExponent entry parts of
        (ok1, e1, p1, m1) \<Rightarrow>
          if \<not> ok1 then Skipped m1
          else
       (case parseMandatorySomething p1 of
          (ok2, p2) \<Rightarrow>
            if \<not> ok2 then Skipped (m1 @ [Reason ''Bad LL line (missing how_far_factored)''])
            else
       (case parseMandatorySomething p2 of
          (ok3, p3) \<Rightarrow>
            if \<not> ok3 then Skipped (m1 @ [Reason ''Bad LL line (missing has_been_pminus1ed)''])
            else Loaded e1 m1)))"

text \<open>
  The PRP branch from the test of \<^verbatim>\<open>isMersenne\<close> and \<^verbatim>\<open>isWagstaff\<close> on
  (lines 250 to 269): two tokens are dropped when there are two, then two more are read
  as base and residue type when there are two. A conversion that throws is a silent
  \<^verbatim>\<open>continue\<close>; the residue type is compared and never assigned.
\<close>

definition parsePRPtail :: "WorktodoEntry \<Rightarrow> string list \<Rightarrow> Outcome" where
  "parsePRPtail entry parts =
     (if \<not> isMersenne entry \<and> \<not> isWagstaff entry
      then Skipped [Reason ''Skip unsupported PRP line (only Mersenne and Wagstaff supported)'']
      else
        (let p1 = (if 2 \<le> length parts then drop 2 parts else parts)
         in if 2 \<le> length p1 then
              (case stoul (p1 ! 0) of
                 None \<Rightarrow> Skipped []
               | Some vb \<Rightarrow>
              (case stoul (p1 ! 1) of
                 None \<Rightarrow> Skipped []
               | Some vr \<Rightarrow>
              (let base = (ucast vb :: 32 word); rt = (ucast vr :: 32 word)
               in if base < 2 then Skipped [Reason ''Skip PRP line: invalid base < 2'']
                  else if base \<noteq> 3 then Skipped [Reason ''Skip PRP line: only base 3 implemented'']
                  else Loaded entry
                         (if rt \<noteq> residueType (options entry)
                          then [ResidueWarning rt (residueType (options entry))] else []))))
            else Loaded entry []))"

definition parsePRP ::
  "(32 word \<Rightarrow> string list \<Rightarrow> bool) \<Rightarrow> WorktodoEntry \<Rightarrow> string list \<Rightarrow> Outcome" where
  "parsePRP validate entry parts =
     (case parseKbnc entry parts of
        (ok1, e1, p1, m1) \<Rightarrow>
          if \<not> ok1 then Skipped m1
          else if length p1 = 1 \<or> length p1 = 3 \<or> length p1 = 5 then
            (case parsePartsFactors e1 p1 of
               (ok2, e2, p2, m2) \<Rightarrow>
                 if \<not> ok2 then Skipped [Reason ''Bad PRP line (bad known factors part)'']
                 else if isMersenne e2 then
                   (if \<not> validate (exponent e2) (knownFactors e2)
                    then Skipped [Reason ''Skip PRP line: invalid known factors for exponent'']
                    else parsePRPtail (e2\<lparr>options := primality 5\<rparr>) p2)
                 else parsePRPtail e2 p2)
          else parsePRPtail e1 p1)"

text \<open>Lines 203 and 204: a leading empty or \<^verbatim>\<open>N/A\<close> token is erased.\<close>

definition dropPlaceholder :: "string list \<Rightarrow> string list" where
  "dropPlaceholder parts =
     (if parts \<noteq> [] \<and> (parts ! 0 = [] \<or> parts ! 0 = ''N/A'') then tl parts else parts)"

text \<open>
  Lines 206 to 210: the assignment id and the parts that are left; \<open>pf_pm1\<close> is
  \<^verbatim>\<open>isPF || isPM1\<close>.
\<close>

definition takeAid :: "bool \<Rightarrow> string list \<Rightarrow> string \<times> string list" where
  "takeAid pf_pm1 parts =
     (if parts \<noteq> [] \<and> (isHex (parts ! 0) \<or> (pf_pm1 \<and> parts ! 0 = ''AID''))
      then (parts ! 0, tl parts) else ([], parts))"

definition parseLine ::
  "(32 word \<Rightarrow> string list \<Rightarrow> bool) \<Rightarrow> (string \<Rightarrow> 64 word option) \<Rightarrow> string \<Rightarrow> Outcome" where
  "parseLine validate stod64 line =
     (if line = [] \<or> hd line = CHR ''#'' then Skipped []
      else
        (let top = split line CHR ''=''
         in if length top < 2 then Skipped []
            else
        (let isPRP = (top ! 0 = ''PRP'' \<or> top ! 0 = ''PRPDC'');
             isLL = (top ! 0 = ''Test'' \<or> top ! 0 = ''DoubleCheck'');
             isPF = (top ! 0 = ''PFactor'');
             isPM1 = (top ! 0 = ''Pminus1'')
         in if \<not> (isLL \<or> isPRP \<or> isPF \<or> isPM1)
            then Skipped [Reason (''Skip unsupported test type: '' @ top ! 0)]
            else
        (let tt = (if isLL then TESTTYPE_LL else if isPRP then TESTTYPE_PRP else TESTTYPE_PM1);
             parts0 = dropPlaceholder (splitRespectingQuotes (top ! 1) CHR '','')
         in case takeAid (isPF \<or> isPM1) parts0 of
              (a, parts) \<Rightarrow>
                (let entry = (newEntry tt)\<lparr>rawLine := line, aid := a\<rparr>
                 in if isPF then parsePF stod64 entry parts
                    else if isPM1 then parsePM1 stod64 entry parts
                    else if isLL then parseLL entry parts
                    else parsePRP validate entry parts)))))"

subsection \<open>The work file\<close>

text \<open>
  Files by path: \<open>contents\<close> is the text of a file that exists, \<open>denied\<close> the
  paths that no stream can open.
\<close>

record FileSystem =
  contents :: "string \<Rightarrow> string option"
  denied :: "string \<Rightarrow> bool"

definition ifstream :: "FileSystem \<Rightarrow> string \<Rightarrow> string option" where
  "ifstream fs path = (if denied fs path then None else contents fs path)"

text \<open>
  \<^verbatim>\<open>std::ofstream(path)\<close> truncates or creates the file; with
  \<^verbatim>\<open>std::ios::app\<close> it keeps a file that exists and creates one that does not.
\<close>

definition ofstream_trunc :: "FileSystem \<Rightarrow> string \<Rightarrow> bool \<times> FileSystem" where
  "ofstream_trunc fs path =
     (if denied fs path then (False, fs)
      else (True, fs\<lparr>contents := (contents fs)(path \<mapsto> [])\<rparr>))"

definition ofstream_app :: "FileSystem \<Rightarrow> string \<Rightarrow> bool \<times> FileSystem" where
  "ofstream_app fs path =
     (if denied fs path then (False, fs)
      else (case contents fs path of
              None \<Rightarrow> (True, fs\<lparr>contents := (contents fs)(path \<mapsto> [])\<rparr>)
            | Some old \<Rightarrow> (True, fs)))"

text \<open>The loop of \<open>parse\<close> over the lines: the first entry loaded is returned.\<close>

fun parseLines ::
  "(32 word \<Rightarrow> string list \<Rightarrow> bool) \<Rightarrow> (string \<Rightarrow> 64 word option) \<Rightarrow> string list \<Rightarrow> Outcome" where
  "parseLines validate stod64 [] = Skipped []"
| "parseLines validate stod64 (line # rest) =
     (case parseLine validate stod64 line of
        Loaded e m \<Rightarrow> Loaded e m
      | Undefined \<Rightarrow> Undefined
      | Skipped m \<Rightarrow>
          (case parseLines validate stod64 rest of
             Loaded e m' \<Rightarrow> Loaded e (m @ m')
           | Undefined \<Rightarrow> Undefined
           | Skipped m' \<Rightarrow> Skipped (m @ m')))"

text \<open>
  \<^verbatim>\<open>WorktodoParser::parse\<close> on the file \<open>filename\<close>: \<open>Skipped\<close> is
  \<^verbatim>\<open>std::nullopt\<close>.
\<close>

definition parse ::
  "(32 word \<Rightarrow> string list \<Rightarrow> bool) \<Rightarrow> (string \<Rightarrow> 64 word option) \<Rightarrow> FileSystem \<Rightarrow> string
     \<Rightarrow> Outcome" where
  "parse validate stod64 fs filename =
     (case ifstream fs filename of
        None \<Rightarrow> Skipped [Reason (''Cannot open '' @ filename)]
      | Some text \<Rightarrow>
          (case parseLines validate stod64 (getlines text) of
             Skipped m \<Rightarrow> Skipped (m @ [Reason (''No valid entry found in '' @ filename)])
           | Loaded e m \<Rightarrow> Loaded e m
           | Undefined \<Rightarrow> Undefined))"

text \<open>
  The loop of \<^verbatim>\<open>removeFirstProcessed\<close> over the lines that are left, with the
  flag \<^verbatim>\<open>skipped\<close>: the flag at the end, what was written to the save file and
  what was written to the temporary file.
\<close>

fun removeLoop :: "string list \<Rightarrow> bool \<Rightarrow> bool \<times> string \<times> string" where
  "removeLoop [] skipped = (skipped, [], [])"
| "removeLoop (line # rest) skipped =
     (if \<not> skipped \<and> line \<noteq> [] then
        (case removeLoop rest True of
           (s, saved, temp) \<Rightarrow> (s, line @ [newline] @ saved, temp))
      else
        (case removeLoop rest skipped of
           (s, saved, temp) \<Rightarrow> (s, saved, line @ [newline] @ temp)))"

definition save_path :: string where
  "save_path = ''worktodo_save.txt''"

text \<open>
  \<^verbatim>\<open>WorktodoParser::removeFirstProcessed\<close>. The three streams are opened first,
  whatever the others do; when one fails the function returns false and leaves the
  files that the other two created or truncated. Otherwise the loop runs, the streams
  are closed, the work file is removed and the temporary file renamed to it (both taken
  to succeed: their results are not read). The work file is read as it was when it was
  opened, which is what happens when it is not the save file itself.
\<close>

definition removeFirstProcessed :: "FileSystem \<Rightarrow> string \<Rightarrow> bool \<times> FileSystem" where
  "removeFirstProcessed fs filename =
     (let inFile = ifstream fs filename in
      case ofstream_trunc fs (filename @ ''.tmp'') of
        (tempOk, fs1) \<Rightarrow>
      (case ofstream_app fs1 save_path of
        (saveOk, fs2) \<Rightarrow>
      (case inFile of
         None \<Rightarrow> (False, fs2)
       | Some text \<Rightarrow>
           if tempOk \<and> saveOk then
             (case removeLoop (getlines text) False of
                (skipped, saved, temp) \<Rightarrow>
                  (let old = (case contents fs2 save_path of None \<Rightarrow> [] | Some t \<Rightarrow> t);
                       fs3 = fs2\<lparr>contents := (contents fs2)(save_path \<mapsto> old @ saved)\<rparr>;
                       fs4 = fs3\<lparr>contents := (contents fs3)(filename @ ''.tmp'' := None,
                                                               filename \<mapsto> temp)\<rparr>
                   in (skipped, fs4)))
           else (False, fs2))))"

text \<open>
  What \<^verbatim>\<open>stream << line << "\n"\<close> writes for the lines of a list, in order.
\<close>

definition putlines :: "string list \<Rightarrow> string" where
  "putlines ls = concat (map (\<lambda>l. l @ [newline]) ls)"

text \<open>
  Values for the two parameters in the examples below: a validation predicate that holds
  of every list, and a conversion that always throws. No example reaches either, but
  the one for Pminus1, which gives its own conversion.
\<close>

definition accept_all :: "32 word \<Rightarrow> string list \<Rightarrow> bool" where
  "accept_all n factors = True"

definition no_stod :: "string \<Rightarrow> 64 word option" where
  "no_stod s = None"

text \<open>A file system with one file, that every stream can open.\<close>

definition fs_with :: "string \<Rightarrow> string \<Rightarrow> FileSystem" where
  "fs_with path body =
     \<lparr> contents = (\<lambda>p. if p = path then Some body else None), denied = (\<lambda>p. False) \<rparr>"

text \<open>
  A work file of three lines: an empty line, a line that ends with two blanks, and a
  last line with no line end.
\<close>

definition queue_example :: string where
  "queue_example = [newline] @ ''PRP=1,2,89,-1  '' @ [newline] @ ''Test=1277,70,0''"

section \<open>Evaluating the parser on a line\<close>

lemmas conversion_defs =
  stoul_def stoull_def stoi_def scan_int_def isspace_c_def isdigit_c_def digits_val_def

lemmas field_defs =
  parseKbnc_def parseExponent_def parseExponentOrKbnc_def parseMandatorySomething_def
  parseFactoringOpts_def parseMaybeFactors_def parsePartsFactors_def parseFactors_def
  rtrim_def isMersenne_def isWagstaff_def

lemmas line_defs =
  parseLine_def split_def splitRespectingQuotes_def dquote_def dropPlaceholder_def
  takeAid_def isHex_def newEntry_def

lemmas file_defs = parse_def ifstream_def fs_with_def getlines_def newline_def

section \<open>What the field parsers keep and what a loaded entry satisfies\<close>

lemma parseKbnc_frame:
  "parseKbnc e ps = (ok, e', ps', m) \<Longrightarrow>
     testType e' = testType e \<and> aid e' = aid e \<and> rawLine e' = rawLine e
     \<and> knownFactors e' = knownFactors e \<and> options e' = options e \<and> set ps' \<subseteq> set ps"
  by (auto simp: parseKbnc_def Let_def split: if_splits option.splits dest: in_set_dropD)

lemma parseKbnc_True:
  "parseKbnc e ps = (True, e', ps', m) \<Longrightarrow>
     k e' \<noteq> 0 \<and> 2 \<le> b e' \<and> exponent e' \<noteq> 0 \<and> ps' = drop 4 ps \<and> m = [] \<and> 4 \<le> length ps"
  by (auto simp: parseKbnc_def Let_def not_less split: if_splits option.splits)

lemma parseExponent_frame:
  "parseExponent e ps = (ok, e', ps', m) \<Longrightarrow>
     testType e' = testType e \<and> aid e' = aid e \<and> rawLine e' = rawLine e
     \<and> knownFactors e' = knownFactors e \<and> options e' = options e
     \<and> k e' = k e \<and> b e' = b e \<and> c e' = c e \<and> set ps' \<subseteq> set ps"
  by (auto simp: parseExponent_def Let_def split: if_splits option.splits dest: list.set_sel(2))

lemma parseExponent_True:
  "parseExponent e ps = (True, e', ps', m) \<Longrightarrow>
     exponent e' \<noteq> 0 \<and> ps' = tl ps \<and> m = [] \<and> ps \<noteq> []"
  by (auto simp: parseExponent_def Let_def split: if_splits option.splits)

lemma parseExponentOrKbnc_frame:
  assumes "parseExponentOrKbnc e ps = Some (ok, e', ps', m)"
  shows "testType e' = testType e \<and> aid e' = aid e \<and> rawLine e' = rawLine e
     \<and> knownFactors e' = knownFactors e \<and> options e' = options e \<and> set ps' \<subseteq> set ps"
proof (cases "ps ! 0 = ''1''")
  case False
  with assms have "parseExponent e ps = (ok, e', ps', m)"
    by (simp add: parseExponentOrKbnc_def split: if_splits)
  from parseExponent_frame [OF this] show ?thesis by simp
next
  case True
  obtain ok1 e1 p1 m1 where kbnc: "parseKbnc e ps = (ok1, e1, p1, m1)"
    by (cases "parseKbnc e ps") auto
  note f1 = parseKbnc_frame [OF kbnc]
  show ?thesis
  proof (cases ok1)
    case True
    with assms \<open>ps ! 0 = ''1''\<close> kbnc have "e' = e1" "ps' = p1"
      by (auto simp: parseExponentOrKbnc_def split: if_splits)
    with f1 show ?thesis by simp
  next
    case False
    obtain ok2 e2 p2 m2 where expo: "parseExponent e1 p1 = (ok2, e2, p2, m2)"
      by (cases "parseExponent e1 p1") auto
    with assms \<open>ps ! 0 = ''1''\<close> kbnc False have "e' = e2" "ps' = p2"
      by (auto simp: parseExponentOrKbnc_def split: if_splits)
    with f1 parseExponent_frame [OF expo] show ?thesis by auto
  qed
qed

lemma parseExponentOrKbnc_True:
  assumes "parseExponentOrKbnc e ps = Some (True, e', ps', m)"
  shows "exponent e' \<noteq> 0"
  using assms
  by (auto simp: parseExponentOrKbnc_def split: if_splits prod.splits
      dest: parseKbnc_True parseExponent_True)

lemma parseFactoringOpts_frame:
  "parseFactoringOpts stod64 e ps = (ok, e', ps', m) \<Longrightarrow>
     testType e' = testType e \<and> aid e' = aid e \<and> rawLine e' = rawLine e
     \<and> knownFactors e' = knownFactors e \<and> exponent e' = exponent e
     \<and> k e' = k e \<and> b e' = b e \<and> c e' = c e \<and> set ps' \<subseteq> set ps"
  by (auto simp: parseFactoringOpts_def Let_def split: if_splits option.splits dest: in_set_dropD)

lemma parseMaybeFactors_frame:
  "parseMaybeFactors e ps = (ok, e', ps', m) \<Longrightarrow>
     testType e' = testType e \<and> aid e' = aid e \<and> rawLine e' = rawLine e
     \<and> options e' = options e \<and> exponent e' = exponent e
     \<and> k e' = k e \<and> b e' = b e \<and> c e' = c e \<and> set ps' \<subseteq> set ps
     \<and> (knownFactors e' = knownFactors e \<or> (\<exists>tok \<in> set ps. knownFactors e' = parseFactors tok))"
  by (auto simp: parseMaybeFactors_def Let_def split: if_splits dest: in_set_butlastD)

lemma parsePartsFactors_frame:
  "parsePartsFactors e ps = (ok, e', ps', m) \<Longrightarrow>
     testType e' = testType e \<and> aid e' = aid e \<and> rawLine e' = rawLine e
     \<and> options e' = options e \<and> exponent e' = exponent e
     \<and> k e' = k e \<and> b e' = b e \<and> c e' = c e \<and> set ps' \<subseteq> set ps
     \<and> (knownFactors e' = knownFactors e \<or> (\<exists>tok \<in> set ps. knownFactors e' = parseFactors tok))"
  by (auto simp: parsePartsFactors_def Let_def split: if_splits dest: in_set_butlastD)

lemma parsePRPtail_Loaded:
  "parsePRPtail e ps = Loaded e' m \<Longrightarrow> e' = e \<and> (isMersenne e \<or> isWagstaff e)"
  by (auto simp: parsePRPtail_def Let_def split: if_splits option.splits)

lemma parseMandatorySomething_set:
  "parseMandatorySomething ps = (ok, ps') \<Longrightarrow> set ps' \<subseteq> set ps"
  by (auto simp: parseMandatorySomething_def split: if_splits dest: list.set_sel(2))


lemma parsePF_Loaded:
  assumes L: "parsePF stod64 e ps = Loaded e' m"
  shows "exponent e' \<noteq> 0 \<and> k e' = 1 \<and> b e' = 2 \<and> testType e' = testType e \<and> aid e' = aid e
     \<and> rawLine e' = rawLine e
     \<and> (knownFactors e' = knownFactors e \<or> (\<exists>tok \<in> set ps. knownFactors e' = parseFactors tok))"
proof -
  from L obtain ok1 e1 p1 m1 where s1: "parseExponentOrKbnc e ps = Some (ok1, e1, p1, m1)"
    by (cases "parseExponentOrKbnc e ps") (auto simp: parsePF_def)
  obtain ok2 p2 where s2: "parseMandatorySomething p1 = (ok2, p2)"
    by (cases "parseMandatorySomething p1") auto
  obtain ok3 p3 where s3: "parseMandatorySomething p2 = (ok3, p3)"
    by (cases "parseMandatorySomething p2") auto
  obtain ok4 e4 p4 m4 where s4: "parseFactoringOpts stod64 e1 p3 = (ok4, e4, p4, m4)"
    by (cases "parseFactoringOpts stod64 e1 p3") auto
  obtain ok5 e5 p5 m5 where s5: "parseMaybeFactors e4 p4 = (ok5, e5, p5, m5)"
    by (cases "parseMaybeFactors e4 p4") auto
  from L s1 s2 s3 s4 s5 have ok: "ok1" "isMersenne e1" "e' = e5"
    by (auto simp: parsePF_def split: if_splits)
  from s1 ok have "exponent e1 \<noteq> 0" by (auto dest: parseExponentOrKbnc_True)
  moreover note f = parseExponentOrKbnc_frame [OF s1] parseMandatorySomething_set [OF s2]
    parseMandatorySomething_set [OF s3] parseFactoringOpts_frame [OF s4]
    parseMaybeFactors_frame [OF s5]
  moreover from f have "set p4 \<subseteq> set ps" by blast
  ultimately show ?thesis using ok by (auto simp: isMersenne_def)
qed

lemma parsePM1_Loaded:
  assumes L: "parsePM1 stod64 e ps = Loaded e' m"
  shows "exponent e' \<noteq> 0 \<and> k e' = 1 \<and> b e' = 2 \<and> testType e' = testType e \<and> aid e' = aid e
     \<and> rawLine e' = rawLine e
     \<and> (knownFactors e' = knownFactors e \<or> (\<exists>tok \<in> set ps. knownFactors e' = parseFactors tok))"
proof -
  obtain ok1 e1 p1 m1 where s1: "parseKbnc e ps = (ok1, e1, p1, m1)"
    by (cases "parseKbnc e ps") auto
  obtain ok2 e2 p2 m2 where s2: "parseFactoringOpts stod64 e1 p1 = (ok2, e2, p2, m2)"
    by (cases "parseFactoringOpts stod64 e1 p1") auto
  obtain ok3 p3 where s3: "parseMandatorySomething p2 = (ok3, p3)"
    by (cases "parseMandatorySomething p2") auto
  obtain ok4 e4 p4 m4 where s4: "parseMaybeFactors e2 p3 = (ok4, e4, p4, m4)"
    by (cases "parseMaybeFactors e2 p3") auto
  from L s1 s2 s3 s4 have ok: "ok1" "isMersenne e1" "e' = e4"
    by (auto simp: parsePM1_def split: if_splits)
  from s1 ok have "exponent e1 \<noteq> 0" by (auto dest: parseKbnc_True)
  moreover note f = parseKbnc_frame [OF s1] parseFactoringOpts_frame [OF s2]
    parseMandatorySomething_set [OF s3] parseMaybeFactors_frame [OF s4]
  moreover from f have "set p3 \<subseteq> set ps" by blast
  ultimately show ?thesis using ok by (auto simp: isMersenne_def)
qed

lemma parseLL_Loaded:
  assumes L: "parseLL e ps = Loaded e' m"
  shows "exponent e' \<noteq> 0 \<and> k e' = k e \<and> b e' = b e \<and> c e' = c e \<and> testType e' = testType e
     \<and> aid e' = aid e \<and> rawLine e' = rawLine e \<and> knownFactors e' = knownFactors e
     \<and> options e' = options e"
proof -
  obtain ok1 e1 p1 m1 where s1: "parseExponent e ps = (ok1, e1, p1, m1)"
    by (cases "parseExponent e ps") auto
  from L s1 have ok: "ok1" "e' = e1"
    by (auto simp: parseLL_def split: if_splits prod.splits)
  with s1 parseExponent_True [of e ps e1 p1 m1] parseExponent_frame [OF s1]
  show ?thesis by auto
qed

lemma parsePRP_Loaded:
  assumes L: "parsePRP validate e ps = Loaded e' m"
  shows "exponent e' \<noteq> 0 \<and> k e' = 1 \<and> b e' = 2 \<and> testType e' = testType e \<and> aid e' = aid e
     \<and> rawLine e' = rawLine e
     \<and> (knownFactors e' = knownFactors e \<or> (\<exists>tok \<in> set ps. knownFactors e' = parseFactors tok))"
proof -
  obtain ok1 e1 p1 m1 where s1: "parseKbnc e ps = (ok1, e1, p1, m1)"
    by (cases "parseKbnc e ps") auto
  obtain ok2 e2 p2 m2 where s2: "parsePartsFactors e1 p1 = (ok2, e2, p2, m2)"
    by (cases "parsePartsFactors e1 p1") auto
  from L s1 have ok1: "ok1" by (auto simp: parsePRP_def split: if_splits)
  note f1 = parseKbnc_frame [OF s1] and t1 = parseKbnc_True [OF s1 [unfolded eqTrueI [OF ok1]]]
  note f2 = parsePartsFactors_frame [OF s2]
  from L s1 s2 ok1 consider
      (plain) "parsePRPtail e1 p1 = Loaded e' m"
    | (factors) "parsePRPtail e2 p2 = Loaded e' m"
    | (cofactor) "parsePRPtail (e2\<lparr>options := primality 5\<rparr>) p2 = Loaded e' m"
    by (auto simp: parsePRP_def split: if_splits)
  then show ?thesis
  proof cases
    case plain
    from parsePRPtail_Loaded [OF this] f1 t1 show ?thesis
      by (auto simp: isMersenne_def isWagstaff_def)
  next
    case factors
    from parsePRPtail_Loaded [OF this] f1 t1 f2 show ?thesis
      by (auto simp: isMersenne_def isWagstaff_def)
  next
    case cofactor
    from parsePRPtail_Loaded [OF this] f1 t1 f2 show ?thesis
      by (auto simp: isMersenne_def isWagstaff_def)
  qed
qed


lemma dropPlaceholder_set: "set (dropPlaceholder ps) \<subseteq> set ps"
  by (auto simp: dropPlaceholder_def dest: list.set_sel(2))

lemma takeAid_set: "takeAid pf ps = (a, ps') \<Longrightarrow> set ps' \<subseteq> set ps"
  by (auto simp: takeAid_def split: if_splits dest: list.set_sel(2))

lemma parseLine_Loaded:
  assumes L: "parseLine validate stod64 line = Loaded e m"
  shows "exponent e \<noteq> 0 \<and> rawLine e = line
     \<and> (testType e = TESTTYPE_LL \<or> (k e = 1 \<and> b e = 2))
     \<and> aid e = fst (takeAid (split line CHR ''='' ! 0 = ''PFactor'' \<or> split line CHR ''='' ! 0 = ''Pminus1'')
                     (dropPlaceholder (splitRespectingQuotes (split line CHR ''='' ! 1) CHR '','')))
     \<and> (knownFactors e = []
         \<or> (\<exists>tok \<in> set (splitRespectingQuotes (split line CHR ''='' ! 1) CHR '','').
               knownFactors e = parseFactors tok))"
proof -
  let ?kw = "split line CHR ''='' ! 0"
  let ?toks = "splitRespectingQuotes (split line CHR ''='' ! 1) CHR '',''"
  let ?pf = "?kw = ''PFactor'' \<or> ?kw = ''Pminus1''"
  obtain a ps where ta: "takeAid ?pf (dropPlaceholder ?toks) = (a, ps)"
    by (cases "takeAid ?pf (dropPlaceholder ?toks)") auto
  have sub: "set ps \<subseteq> set ?toks"
    using takeAid_set [OF ta] dropPlaceholder_set [of ?toks] by blast
  from L have pre: "line \<noteq> []" "hd line \<noteq> CHR ''#''" "\<not> length (split line CHR ''='') < 2"
    by (auto simp: parseLine_def split: if_splits)
  from L pre consider (PF) "?kw = ''PFactor''" | (PM1) "?kw = ''Pminus1''"
    | (LL) "?kw = ''Test'' \<or> ?kw = ''DoubleCheck''" | (PRP) "?kw = ''PRP'' \<or> ?kw = ''PRPDC''"
    by (auto simp: parseLine_def Let_def split: if_splits)
  then show ?thesis
  proof cases
    case PF
    with L pre ta
    have "parsePF stod64 ((newEntry TESTTYPE_PM1)\<lparr>rawLine := line, aid := a\<rparr>) ps = Loaded e m"
      by (simp add: parseLine_def Let_def)
    from parsePF_Loaded [OF this] ta PF sub show ?thesis
      by (auto simp: newEntry_def)
  next
    case PM1
    with L pre ta
    have "parsePM1 stod64 ((newEntry TESTTYPE_PM1)\<lparr>rawLine := line, aid := a\<rparr>) ps = Loaded e m"
      by (simp add: parseLine_def Let_def)
    from parsePM1_Loaded [OF this] ta PM1 sub show ?thesis
      by (auto simp: newEntry_def)
  next
    case LL
    with L pre ta
    have "parseLL ((newEntry TESTTYPE_LL)\<lparr>rawLine := line, aid := a\<rparr>) ps = Loaded e m"
      by (auto simp: parseLine_def Let_def)
    from parseLL_Loaded [OF this] ta LL sub show ?thesis
      by (auto simp: newEntry_def)
  next
    case PRP
    with L pre ta
    have "parsePRP validate ((newEntry TESTTYPE_PRP)\<lparr>rawLine := line, aid := a\<rparr>) ps = Loaded e m"
      by (auto simp: parseLine_def Let_def)
    from parsePRP_Loaded [OF this] ta PRP sub show ?thesis
      by (auto simp: newEntry_def)
  qed
qed

lemma parseLines_Loaded:
  "parseLines validate stod64 ls = Loaded e m \<Longrightarrow>
     \<exists>l \<in> set ls. \<exists>m'. parseLine validate stod64 l = Loaded e m'"
proof (induction ls arbitrary: m)
  case Nil
  then show ?case by simp
next
  case (Cons l ls)
  show ?case
  proof (cases "parseLine validate stod64 l")
    case (Skipped m0)
    with Cons.prems obtain m1 where "parseLines validate stod64 ls = Loaded e m1"
      by (auto split: Outcome.splits)
    from Cons.IH [OF this] show ?thesis by auto
  next
    case (Loaded e0 m0)
    with Cons.prems show ?thesis by auto
  next
    case Undefined
    with Cons.prems show ?thesis by simp
  qed
qed

lemma parse_Loaded:
  assumes "parse validate stod64 fs filename = Loaded e m"
  shows "\<exists>body. ifstream fs filename = Some body
     \<and> (\<exists>l \<in> set (getlines body). \<exists>m'. parseLine validate stod64 l = Loaded e m')"
proof -
  from assms obtain body where t: "ifstream fs filename = Some body"
    by (cases "ifstream fs filename") (auto simp: parse_def)
  with assms obtain m1 where "parseLines validate stod64 (getlines body) = Loaded e m1"
    by (auto simp: parse_def split: Outcome.splits)
  from parseLines_Loaded [OF this] t show ?thesis by auto
qed

section \<open>Pminus1 lines without a list of factors\<close>

lemma getline_all_front: "getline_all d s cur = t # ts \<Longrightarrow> \<exists>r. t = cur @ r"
proof (induction s arbitrary: cur)
  case Nil
  then show ?case by (auto split: if_splits)
next
  case (Cons ch s)
  show ?case
  proof (cases "ch = d")
    case True
    with Cons.prems show ?thesis by simp
  next
    case False
    with Cons.prems have "getline_all d s (cur @ [ch]) = t # ts" by simp
    from Cons.IH [OF this] obtain r where "t = cur @ (ch # r)" by auto
    then show ?thesis by blast
  qed
qed

lemma split_first_nonempty:
  assumes "split s d = t # ts" and "t \<noteq> []"
  shows "s \<noteq> [] \<and> hd s = hd t"
proof (cases s)
  case Nil
  with assms show ?thesis by (simp add: split_def)
next
  case (Cons ch s')
  with assms have "ch \<noteq> d" by (auto simp: split_def)
  with assms Cons have "getline_all d s' [ch] = t # ts" by (simp add: split_def)
  from getline_all_front [OF this] Cons show ?thesis by auto
qed

text \<open>
  Claim C1. A Pminus1 line whose payload is exactly the seven tokens k, b, n, c, B1, B2
  and how-far-factored, with k = 1, b = 2, c = -1, a non-zero exponent and bounds
  \<open>0 < B1 \<le> B2\<close>, is loaded: the entry is a P-1 entry with these bounds, the last
  token is dropped, and the known factors are empty. That no list of factors follows is
  not an error. (The first token is not an assignment id: it does not have 32
  hexadecimal digits.)
\<close>

theorem pminus1_line_without_factor_list:
  assumes top: "split line CHR ''='' = ''Pminus1'' # payload # others"
    and toks: "splitRespectingQuotes payload CHR '','' = [tk, tb, tn, tc, tB1, tB2, hff]"
    and noaid: "\<not> isHex tk"
    and kv: "stoul tk = Some vk" "ucast vk = (1 :: 32 word)"
    and bv: "stoul tb = Some vb" "ucast vb = (2 :: 32 word)"
    and nv: "stoul tn = Some vn" "(ucast vn :: 32 word) \<noteq> 0"
    and cv: "stoi tc = Some (- 1)"
    and b1: "stoull tB1 = Some v1" "v1 \<noteq> 0"
    and b2: "stod64 tB2 = Some v2" "v1 \<le> v2"
  shows "parseLine validate stod64 line =
     Loaded \<lparr> testType = TESTTYPE_PM1, exponent = ucast vn, k = 1, b = 2, c = - 1, aid = [],
              rawLine = line, knownFactors = [], options = factoring v1 v2 \<rparr> []"
proof -
  from split_first_nonempty [OF top] have line: "line \<noteq> []" "hd line \<noteq> CHR ''#''"
    by auto
  from kv(1) have tk: "tk \<noteq> []" "tk \<noteq> ''N/A''" "tk \<noteq> ''AID''"
    by (auto simp: conversion_defs)
  have parts: "takeAid True (dropPlaceholder [tk, tb, tn, tc, tB1, tB2, hff]) =
      ([], [tk, tb, tn, tc, tB1, tB2, hff])"
    using tk noaid by (simp add: takeAid_def dropPlaceholder_def)
  have pm1: "parsePM1 stod64 ((newEntry TESTTYPE_PM1)\<lparr>rawLine := line, aid := []\<rparr>)
      [tk, tb, tn, tc, tB1, tB2, hff] =
     Loaded \<lparr> testType = TESTTYPE_PM1, exponent = ucast vn, k = 1, b = 2, c = - 1, aid = [],
              rawLine = line, knownFactors = [], options = factoring v1 v2 \<rparr> []"
    using kv bv nv cv b1 b2
    by (simp add: parsePM1_def parseKbnc_def parseFactoringOpts_def parseMandatorySomething_def
        parseMaybeFactors_def isMersenne_def newEntry_def Let_def leD)
  show ?thesis
    using line pm1
    by (simp add: parseLine_def top toks parts)
qed

text \<open>
  The theorem at \<^verbatim>\<open>Pminus1=1,2,1277,-1,1000,50000,70\<close>. The conversion of B2
  through \<^verbatim>\<open>double\<close> is exact on a token of decimal digits whose number is below
  \<open>2^53\<close>, where it agrees with \<open>stoull\<close>, which stands for it here.
\<close>

theorem pminus1_line_without_factor_list_witness:
  "parseLine accept_all stoull ''Pminus1=1,2,1277,-1,1000,50000,70'' =
     Loaded \<lparr> testType = TESTTYPE_PM1, exponent = 1277, k = 1, b = 2, c = - 1, aid = [],
              rawLine = ''Pminus1=1,2,1277,-1,1000,50000,70'', knownFactors = [],
              options = factoring 1000 50000 \<rparr> []"
  using pminus1_line_without_factor_list [where line = "''Pminus1=1,2,1277,-1,1000,50000,70''"
      and payload = "''1,2,1277,-1,1000,50000,70''" and others = "[]"
      and tk = "''1''" and tb = "''2''" and tn = "''1277''" and tc = "''-1''"
      and ?tB1.0 = "''1000''" and ?tB2.0 = "''50000''" and hff = "''70''"
      and vk = 1 and vb = 2 and vn = 1277 and ?v1.0 = 1000 and ?v2.0 = 50000
      and ?stod64.0 = stoull and validate = accept_all]
  by (simp add: split_def splitRespectingQuotes_def dquote_def isHex_def conversion_defs)

section \<open>The entry that parse returns\<close>

lemma line_Test_1277:
  "parseLine validate stod64 ''Test=1277,70,0'' =
     Loaded \<lparr> testType = TESTTYPE_LL, exponent = 1277, k = 0, b = 0, c = 0, aid = [],
              rawLine = ''Test=1277,70,0'', knownFactors = [], options = primality 1 \<rparr> []"
  by (simp add: line_defs parseLL_def field_defs conversion_defs)

text \<open>
  Claim C2, as stated: every entry that \<open>parse\<close> returns, a Lucas-Lehmer entry
  included, has \<open>exponent \<ge> 1\<close>, \<open>k \<ge> 1\<close> and \<open>b \<ge> 2\<close>. A file with the line
  \<^verbatim>\<open>Test=1277,70,0\<close> refutes it: \<open>parseExponent\<close> assigns the exponent only,
  and the entry is returned with \<open>k = 0\<close> and \<open>b = 0\<close>.
\<close>

theorem lucas_lehmer_entry_counterexample:
  "parse accept_all no_stod (fs_with ''worktodo.txt'' ''Test=1277,70,0'') ''worktodo.txt'' =
     Loaded \<lparr> testType = TESTTYPE_LL, exponent = 1277, k = 0, b = 0, c = 0, aid = [],
              rawLine = ''Test=1277,70,0'', knownFactors = [], options = primality 1 \<rparr> []"
  by (simp add: file_defs line_Test_1277)

lemma line_PRP_89:
  "parseLine validate stod64 ''PRP=1,2,89,-1'' =
     Loaded \<lparr> testType = TESTTYPE_PRP, exponent = 89, k = 1, b = 2, c = - 1, aid = [],
              rawLine = ''PRP=1,2,89,-1'', knownFactors = [], options = primality 1 \<rparr> []"
  by (simp add: line_defs parsePRP_def parsePRPtail_def field_defs conversion_defs)

text \<open>
  Claim C2, amended: every entry that \<open>parse\<close> returns has \<open>exponent \<ge> 1\<close>, and
  every returned entry that is not a Lucas-Lehmer entry (a PRP or a P-1 entry) has
  \<open>k \<ge> 1\<close> and \<open>b \<ge> 2\<close>. For Test and DoubleCheck lines the parser reads the
  exponent and nothing else.
\<close>

theorem returned_entry_invariants:
  assumes "parse validate stod64 fs filename = Loaded e m"
  shows "1 \<le> exponent e \<and> (testType e \<noteq> TESTTYPE_LL \<longrightarrow> 1 \<le> k e \<and> 2 \<le> b e)"
proof -
  from parse_Loaded [OF assms] obtain l m' where "parseLine validate stod64 l = Loaded e m'"
    by blast
  from parseLine_Loaded [OF this]
  have "exponent e \<noteq> 0" and "testType e = TESTTYPE_LL \<or> (k e = 1 \<and> b e = 2)"
    by simp_all
  then show ?thesis
    by (auto simp: word_le_nat_alt unat_gt_0 Suc_le_eq)
qed


text \<open>The theorem at a file with one PRP line.\<close>

theorem returned_entry_invariants_witness:
  "parse accept_all no_stod (fs_with ''worktodo.txt'' ''PRP=1,2,89,-1'') ''worktodo.txt'' =
     Loaded \<lparr> testType = TESTTYPE_PRP, exponent = 89, k = 1, b = 2, c = - 1, aid = [],
              rawLine = ''PRP=1,2,89,-1'', knownFactors = [], options = primality 1 \<rparr> []
   \<and> (1 :: 32 word) \<le> 89 \<and> (1 :: 32 word) \<le> 1 \<and> (2 :: 32 word) \<le> 2"
proof -
  have run: "parse accept_all no_stod (fs_with ''worktodo.txt'' ''PRP=1,2,89,-1'') ''worktodo.txt'' =
     Loaded \<lparr> testType = TESTTYPE_PRP, exponent = 89, k = 1, b = 2, c = - 1, aid = [],
              rawLine = ''PRP=1,2,89,-1'', knownFactors = [], options = primality 1 \<rparr> []"
    by (simp add: file_defs line_PRP_89)
  from returned_entry_invariants [OF run] run show ?thesis by simp
qed

section \<open>PFactor lines in the exponent form\<close>

text \<open>
  No PFactor line in the exponent form is loaded: \<open>parseExponent\<close> leaves \<open>k\<close> as
  it finds it, 0 in a new entry, and the test of \<open>isMersenne\<close> that follows fails.
\<close>

lemma pfactor_exponent_form_never_loaded:
  assumes "parts \<noteq> []" and "parts ! 0 \<noteq> ''1''" and "k entry = 0"
  shows "\<exists>m. parsePF stod64 entry parts = Skipped m"
proof -
  obtain ok e1 p1 m1 where expo: "parseExponent entry parts = (ok, e1, p1, m1)"
    by (cases "parseExponent entry parts") auto
  from parseExponent_frame [OF expo] assms(3) have "\<not> isMersenne e1"
    by (simp add: isMersenne_def)
  with assms(1,2) expo show ?thesis
    by (simp add: parsePF_def parseExponentOrKbnc_def)
qed

text \<open>
  Claim C3. The line \<^verbatim>\<open>PFactor=1277,70,5\<close> takes the exponent path
  (its first token is not "1") and should be rejected because the tokens of B1 and B2
  are missing. The code rejects it one step earlier and for another reason:
  \<open>parseExponent\<close> assigns the exponent only, so \<open>k\<close>, \<open>b\<close> and \<open>c\<close> are
  still 0 when \<open>isMersenne\<close> is tested, and the reason printed is that of the
  Mersenne test. \<open>parseFactoringOpts\<close> and its reason "not enough parts for B1,B2"
  are never reached.
\<close>

theorem pfactor_exponent_form_rejected_as_not_mersenne:
  "parseLine validate stod64 ''PFactor=1277,70,5'' =
     Skipped [Reason ''Skip unsupported PFactor line (only Mersenne supported)'']"
  by (simp add: line_defs parsePF_def field_defs conversion_defs)

section \<open>PRP lines whose last token is not a list of factors\<close>

text \<open>
  Claim C4. After k,b,n,c the line \<^verbatim>\<open>PRP=1,2,89,-1,70\<close> has one token left,
  and that token is not a quoted list. The claim is that the line is rejected with the
  reason "Bad PRP line (bad known factors part)". \<open>parsePartsFactors\<close> returns true
  whenever there is a token, so that branch is not taken: the line goes on with no known
  factor, the validation predicate is asked about the empty list, and the line is loaded
  with residue type 5 when the predicate holds and skipped with the reason of the
  predicate when it does not.
\<close>

theorem prp_unquoted_last_token_not_rejected_as_bad_factors:
  "parseLine validate stod64 ''PRP=1,2,89,-1,70'' =
     (if validate 89 []
      then Loaded \<lparr> testType = TESTTYPE_PRP, exponent = 89, k = 1, b = 2, c = - 1, aid = [],
                    rawLine = ''PRP=1,2,89,-1,70'', knownFactors = [],
                    options = primality 5 \<rparr> []
      else Skipped [Reason ''Skip PRP line: invalid known factors for exponent''])"
  by (simp add: line_defs parsePRP_def parsePRPtail_def field_defs conversion_defs)

section \<open>Removing the first line of the work file\<close>

lemma removeLoop_True: "removeLoop ls True = (True, [], putlines ls)"
  by (induction ls) (simp_all add: putlines_def)

lemma removeLoop_blank:
  "\<forall>l \<in> set ls. l = [] \<Longrightarrow> removeLoop ls False = (False, [], putlines ls)"
  by (induction ls) (simp_all add: putlines_def)

lemma removeLoop_first:
  "\<forall>x \<in> set pre. x = [] \<Longrightarrow> l \<noteq> [] \<Longrightarrow>
     removeLoop (pre @ l # post) False = (True, l @ [newline], putlines (pre @ post))"
  by (induction pre) (simp_all add: putlines_def removeLoop_True)

lemma putlines_getline_all:
  "concat (map (\<lambda>l. l @ [d]) (getline_all d s cur)) =
     (if s = [] then (if cur = [] then [] else cur @ [d])
      else if last s = d then cur @ s else cur @ s @ [d])"
  by (induction s arbitrary: cur) auto

lemma getline_all_no_delim:
  "d \<notin> set cur \<Longrightarrow> \<forall>l \<in> set (getline_all d s cur). d \<notin> set l"
proof (induction s arbitrary: cur)
  case Nil
  then show ?case by simp
next
  case (Cons ch s)
  show ?case
  proof (cases "ch = d")
    case True
    with Cons.IH [of "[]"] Cons.prems show ?thesis by simp
  next
    case False
    with Cons.IH [of "cur @ [ch]"] Cons.prems show ?thesis by simp
  qed
qed

lemma getline_all_item:
  "d \<notin> set l \<Longrightarrow> getline_all d (l @ d # s) cur = (cur @ l) # getline_all d s []"
  by (induction l arbitrary: cur) auto

lemma getline_all_putlines:
  "\<forall>l \<in> set ls. d \<notin> set l \<Longrightarrow> getline_all d (concat (map (\<lambda>l. l @ [d]) ls)) [] = ls"
  by (induction ls) (simp_all add: getline_all_item)

lemma getlines_putlines:
  "\<forall>l \<in> set ls. newline \<notin> set l \<Longrightarrow> getlines (putlines ls) = ls"
  by (simp add: getlines_def putlines_def getline_all_putlines)

lemma getlines_no_newline: "l \<in> set (getlines q) \<Longrightarrow> newline \<notin> set l"
  using getline_all_no_delim [of newline "[]" q] by (simp add: getlines_def)

lemma putlines_blank: "\<forall>l \<in> set ls. l = [] \<Longrightarrow> putlines ls = replicate (length ls) newline"
  by (induction ls) (simp_all add: putlines_def)

lemma putlines_getlines_blank:
  assumes "\<forall>l \<in> set (getlines q). l = []"
  shows "putlines (getlines q) = q"
proof -
  have eq: "putlines (getlines q) =
     (if q = [] then [] else if last q = newline then q else q @ [newline])"
    by (simp add: putlines_def getlines_def putlines_getline_all)
  show ?thesis
  proof (cases "q = [] \<or> last q = newline")
    case True
    with eq show ?thesis by auto
  next
    case False
    with eq have "q @ [newline] = replicate (length (getlines q)) newline"
      using putlines_blank [OF assms] by simp
    then have "set q \<subseteq> {newline}"
      by (metis Un_iff set_append set_replicate_conv_if empty_iff subsetI)
    with False show ?thesis
      by (metis last_in_set singletonD subsetD)
  qed
qed


lemma tmp_not_save: "filename @ ''.tmp'' \<noteq> save_path"
proof
  assume "filename @ ''.tmp'' = save_path"
  then have "last (filename @ ''.tmp'') = last save_path" by simp
  then show False by (simp add: save_path_def)
qed

lemma removeFirstProcessed_run:
  assumes q: "contents fs filename = Some q"
    and opened: "\<not> denied fs filename" "\<not> denied fs (filename @ ''.tmp'')" "\<not> denied fs save_path"
    and other: "filename \<noteq> save_path"
    and loop: "removeLoop (getlines q) False = (skipped, saved, temp)"
  shows "fst (removeFirstProcessed fs filename) = skipped"
    and "contents (snd (removeFirstProcessed fs filename)) filename = Some temp"
    and "contents (snd (removeFirstProcessed fs filename)) save_path =
           Some ((case contents fs save_path of None \<Rightarrow> [] | Some t \<Rightarrow> t) @ saved)"
    and "contents (snd (removeFirstProcessed fs filename)) (filename @ ''.tmp'') = None"
    and "\<forall>p. p \<noteq> filename \<and> p \<noteq> save_path \<and> p \<noteq> filename @ ''.tmp''
           \<longrightarrow> contents (snd (removeFirstProcessed fs filename)) p = contents fs p"
  using assms tmp_not_save [of filename]
  by (auto simp: removeFirstProcessed_def ifstream_def ofstream_trunc_def ofstream_app_def
      Let_def split: option.splits)

text \<open>
  Claim C5, as stated: on a work file with no non-empty line, \<open>removeFirstProcessed\<close>
  returns false and touches neither file; the save file is not created when it does not
  exist. On an empty work file and no save file the function returns false, and the
  save file exists afterwards, empty: the three streams are opened before the first line
  is read, and opening the save file for appending creates it.
\<close>

theorem remove_on_blank_queue_counterexample:
  "fst (removeFirstProcessed (fs_with ''worktodo.txt'' []) ''worktodo.txt'') = False
   \<and> contents (fs_with ''worktodo.txt'' []) ''worktodo_save.txt'' = None
   \<and> contents (snd (removeFirstProcessed (fs_with ''worktodo.txt'' []) ''worktodo.txt''))
        ''worktodo_save.txt'' = Some []"
  by (simp add: removeFirstProcessed_def ifstream_def ofstream_trunc_def ofstream_app_def
      fs_with_def save_path_def getlines_def)

text \<open>
  Claim C5, amended: when the three streams open, the work file is not the save file
  and no line of the work file is non-empty, \<open>removeFirstProcessed\<close> returns false, the
  work file has the text it had, a save file that exists has the text it had, and a
  save file that does not exist is created empty. No other file changes but the
  temporary file, which is gone at the end.
\<close>

theorem remove_on_blank_queue:
  assumes q: "contents fs filename = Some q"
    and opened: "\<not> denied fs filename" "\<not> denied fs (filename @ ''.tmp'')" "\<not> denied fs save_path"
    and other: "filename \<noteq> save_path"
    and blank: "\<forall>l \<in> set (getlines q). l = []"
  shows "fst (removeFirstProcessed fs filename) = False
     \<and> contents (snd (removeFirstProcessed fs filename)) filename = Some q
     \<and> contents (snd (removeFirstProcessed fs filename)) save_path =
         Some (case contents fs save_path of None \<Rightarrow> [] | Some t \<Rightarrow> t)
     \<and> contents (snd (removeFirstProcessed fs filename)) (filename @ ''.tmp'') = None
     \<and> (\<forall>p. p \<noteq> filename \<and> p \<noteq> save_path \<and> p \<noteq> filename @ ''.tmp''
           \<longrightarrow> contents (snd (removeFirstProcessed fs filename)) p = contents fs p)"
proof -
  from removeLoop_blank [OF blank] putlines_getlines_blank [OF blank]
  have "removeLoop (getlines q) False = (False, [], q)" by simp
  from removeFirstProcessed_run [OF q opened other this] show ?thesis by simp
qed

text \<open>The theorem at a work file of two empty lines, with no save file.\<close>

theorem remove_on_blank_queue_witness:
  "fst (removeFirstProcessed (fs_with ''worktodo.txt'' [newline, newline]) ''worktodo.txt'') = False
   \<and> contents (snd (removeFirstProcessed (fs_with ''worktodo.txt'' [newline, newline])
        ''worktodo.txt'')) ''worktodo.txt'' = Some [newline, newline]
   \<and> contents (snd (removeFirstProcessed (fs_with ''worktodo.txt'' [newline, newline])
        ''worktodo.txt'')) save_path = Some []"
  using remove_on_blank_queue [of "fs_with ''worktodo.txt'' [newline, newline]" "''worktodo.txt''"
      "[newline, newline]"]
  by (simp add: fs_with_def save_path_def getlines_def)

text \<open>
  Claim C6. When the three streams open, the work file is not the save file and the
  work file has a non-empty line, the lines of the work file are some empty lines, then
  a first non-empty line \<open>l\<close>, then the rest. \<open>removeFirstProcessed\<close> returns true,
  what it appends to the save file is \<open>l\<close>, character for character, and a line end,
  and the work file is rewritten with the other lines, in order, the empty lines before
  \<open>l\<close> included: reading it again gives exactly these lines.
\<close>

theorem removed_line_is_archived_line:
  assumes q: "contents fs filename = Some q"
    and opened: "\<not> denied fs filename" "\<not> denied fs (filename @ ''.tmp'')" "\<not> denied fs save_path"
    and other: "filename \<noteq> save_path"
    and nonblank: "\<exists>l \<in> set (getlines q). l \<noteq> []"
  shows "\<exists>pre l post.
       getlines q = pre @ l # post \<and> (\<forall>x \<in> set pre. x = []) \<and> l \<noteq> []
     \<and> fst (removeFirstProcessed fs filename) = True
     \<and> contents (snd (removeFirstProcessed fs filename)) save_path =
         Some ((case contents fs save_path of None \<Rightarrow> [] | Some t \<Rightarrow> t) @ l @ [newline])
     \<and> contents (snd (removeFirstProcessed fs filename)) filename = Some (putlines (pre @ post))
     \<and> getlines (putlines (pre @ post)) = pre @ post"
proof -
  from split_list_first_prop [OF nonblank] obtain pre l post
    where dec: "getlines q = pre @ l # post" and l: "l \<noteq> []"
      and blank: "\<forall>x \<in> set pre. x = []"
    by auto
  from removeLoop_first [OF blank l] dec
  have loop: "removeLoop (getlines q) False = (True, l @ [newline], putlines (pre @ post))"
    by simp
  have "\<forall>x \<in> set (pre @ post). newline \<notin> set x"
    using getlines_no_newline [of _ q] dec by auto
  then have reread: "getlines (putlines (pre @ post)) = pre @ post"
    by (rule getlines_putlines)
  from removeFirstProcessed_run [OF q opened other loop] dec l blank reread show ?thesis
    by blast
qed


text \<open>
  The theorem at \<open>queue_example\<close>, with no save file: the line with its two trailing
  blanks goes to the save file, the empty line and the last line stay.
\<close>

theorem removed_line_is_archived_line_witness:
  "(\<exists>pre l post.
       getlines queue_example = pre @ l # post \<and> (\<forall>x \<in> set pre. x = []) \<and> l \<noteq> []
     \<and> fst (removeFirstProcessed (fs_with ''worktodo.txt'' queue_example) ''worktodo.txt'') = True
     \<and> contents (snd (removeFirstProcessed (fs_with ''worktodo.txt'' queue_example)
          ''worktodo.txt'')) save_path =
         Some ((case contents (fs_with ''worktodo.txt'' queue_example) save_path of
                  None \<Rightarrow> [] | Some t \<Rightarrow> t) @ l @ [newline])
     \<and> contents (snd (removeFirstProcessed (fs_with ''worktodo.txt'' queue_example)
          ''worktodo.txt'')) ''worktodo.txt'' = Some (putlines (pre @ post))
     \<and> getlines (putlines (pre @ post)) = pre @ post)
   \<and> getlines queue_example = [[], ''PRP=1,2,89,-1  '', ''Test=1277,70,0'']
   \<and> contents (snd (removeFirstProcessed (fs_with ''worktodo.txt'' queue_example)
        ''worktodo.txt'')) save_path = Some (''PRP=1,2,89,-1  '' @ [newline])
   \<and> contents (snd (removeFirstProcessed (fs_with ''worktodo.txt'' queue_example)
        ''worktodo.txt'')) ''worktodo.txt'' = Some ([newline] @ ''Test=1277,70,0'' @ [newline])"
proof -
  have lines: "getlines queue_example = [[], ''PRP=1,2,89,-1  '', ''Test=1277,70,0'']"
    by (simp add: queue_example_def getlines_def newline_def)
  have "\<exists>pre l post.
       getlines queue_example = pre @ l # post \<and> (\<forall>x \<in> set pre. x = []) \<and> l \<noteq> []
     \<and> fst (removeFirstProcessed (fs_with ''worktodo.txt'' queue_example) ''worktodo.txt'') = True
     \<and> contents (snd (removeFirstProcessed (fs_with ''worktodo.txt'' queue_example)
          ''worktodo.txt'')) save_path =
         Some ((case contents (fs_with ''worktodo.txt'' queue_example) save_path of
                  None \<Rightarrow> [] | Some t \<Rightarrow> t) @ l @ [newline])
     \<and> contents (snd (removeFirstProcessed (fs_with ''worktodo.txt'' queue_example)
          ''worktodo.txt'')) ''worktodo.txt'' = Some (putlines (pre @ post))
     \<and> getlines (putlines (pre @ post)) = pre @ post"
    by (rule removed_line_is_archived_line) (simp_all add: fs_with_def save_path_def lines)
  moreover
  have "contents (snd (removeFirstProcessed (fs_with ''worktodo.txt'' queue_example)
        ''worktodo.txt'')) save_path = Some (''PRP=1,2,89,-1  '' @ [newline])"
    by (simp add: removeFirstProcessed_def ifstream_def ofstream_trunc_def ofstream_app_def
        fs_with_def save_path_def lines)
  moreover
  have "contents (snd (removeFirstProcessed (fs_with ''worktodo.txt'' queue_example)
        ''worktodo.txt'')) ''worktodo.txt'' = Some ([newline] @ ''Test=1277,70,0'' @ [newline])"
    by (simp add: removeFirstProcessed_def ifstream_def ofstream_trunc_def ofstream_app_def
        fs_with_def save_path_def lines)
  ultimately show ?thesis using lines by blast
qed

section \<open>The assignment id\<close>

lemma takeAid_Cons:
  "takeAid pf_pm1 (tok # rest) =
     (if (length tok = 32 \<and> list_all isxdigit_c tok) \<or> (pf_pm1 \<and> tok = ''AID'')
      then (tok, rest) else ([], tok # rest))"
  by (auto simp: takeAid_def isHex_def)

lemma line_PRP_aid32:
  "parseLine validate stod64 ''PRP=0123456789abcdef0123456789ABCDEF,1,2,89,-1'' =
     Loaded \<lparr> testType = TESTTYPE_PRP, exponent = 89, k = 1, b = 2, c = - 1,
              aid = ''0123456789abcdef0123456789ABCDEF'',
              rawLine = ''PRP=0123456789abcdef0123456789ABCDEF,1,2,89,-1'', knownFactors = [],
              options = primality 1 \<rparr> []"
  by (simp add: line_defs isxdigit_c_def parsePRP_def parsePRPtail_def field_defs conversion_defs)

text \<open>
  Claim C7. The token at the front of the payload (after a leading empty or N/A token
  is dropped) is consumed as the assignment id if and only if it has exactly 32
  characters, all hexadecimal digits, or the line is a PFactor or Pminus1 line and the
  token is the text AID. A token of 31 or 33 characters is never consumed: it stays at
  the front of the parts, for the field parsers. The \<open>aid\<close> of an entry that is loaded
  is the token so consumed, and empty when none is.
\<close>

theorem assignment_id_consumed_iff:
  "takeAid pf_pm1 [] = ([], [])
   \<and> takeAid pf_pm1 (tok # rest) =
       (if (length tok = 32 \<and> (\<forall>ch \<in> set tok. ch \<in> set ''0123456789abcdefABCDEF''))
           \<or> (pf_pm1 \<and> tok = ''AID'')
        then (tok, rest) else ([], tok # rest))
   \<and> (length tok = 31 \<or> length tok = 33 \<longrightarrow> takeAid pf_pm1 (tok # rest) = ([], tok # rest))
   \<and> (parseLine validate stod64 line = Loaded e m \<longrightarrow>
        aid e = fst (takeAid (split line CHR ''='' ! 0 = ''PFactor'' \<or> split line CHR ''='' ! 0 = ''Pminus1'')
                       (dropPlaceholder (splitRespectingQuotes (split line CHR ''='' ! 1) CHR '',''))))"
proof -
  have "takeAid pf_pm1 [] = ([], [])"
    by (simp add: takeAid_def)
  moreover have cons: "takeAid pf_pm1 (tok # rest) =
       (if (length tok = 32 \<and> (\<forall>ch \<in> set tok. ch \<in> set ''0123456789abcdefABCDEF''))
           \<or> (pf_pm1 \<and> tok = ''AID'')
        then (tok, rest) else ([], tok # rest))"
    unfolding takeAid_Cons list_all_iff isxdigit_c_def ..
  moreover have "length tok = 31 \<or> length tok = 33 \<longrightarrow> takeAid pf_pm1 (tok # rest) = ([], tok # rest)"
    unfolding cons by auto
  moreover have "parseLine validate stod64 line = Loaded e m \<longrightarrow>
        aid e = fst (takeAid (split line CHR ''='' ! 0 = ''PFactor'' \<or> split line CHR ''='' ! 0 = ''Pminus1'')
                       (dropPlaceholder (splitRespectingQuotes (split line CHR ''='' ! 1) CHR '','')))"
    using parseLine_Loaded [of validate stod64 line e m] by blast
  ultimately show ?thesis by blast
qed

text \<open>
  The theorem at a PRP line with an id of 32 hexadecimal digits, and at a token of 31
  digits.
\<close>

theorem assignment_id_consumed_iff_witness:
  "takeAid False [''0123456789abcdef0123456789ABCDEF'', ''1'', ''2'', ''89'', ''-1''] =
     (''0123456789abcdef0123456789ABCDEF'', [''1'', ''2'', ''89'', ''-1''])
   \<and> takeAid True [''0123456789abcdef0123456789ABCDE'', ''1'', ''2'', ''89'', ''-1''] =
     ([], [''0123456789abcdef0123456789ABCDE'', ''1'', ''2'', ''89'', ''-1''])
   \<and> parseLine accept_all no_stod ''PRP=0123456789abcdef0123456789ABCDEF,1,2,89,-1'' =
       Loaded \<lparr> testType = TESTTYPE_PRP, exponent = 89, k = 1, b = 2, c = - 1,
                aid = ''0123456789abcdef0123456789ABCDEF'',
                rawLine = ''PRP=0123456789abcdef0123456789ABCDEF,1,2,89,-1'', knownFactors = [],
                options = primality 1 \<rparr> []"
proof -
  have "takeAid False [''0123456789abcdef0123456789ABCDEF'', ''1'', ''2'', ''89'', ''-1''] =
     (''0123456789abcdef0123456789ABCDEF'', [''1'', ''2'', ''89'', ''-1''])"
    by (simp add: assignment_id_consumed_iff [THEN conjunct2, THEN conjunct1])
  moreover
  have "takeAid True [''0123456789abcdef0123456789ABCDE'', ''1'', ''2'', ''89'', ''-1''] =
     ([], [''0123456789abcdef0123456789ABCDE'', ''1'', ''2'', ''89'', ''-1''])"
    using assignment_id_consumed_iff [of True "''0123456789abcdef0123456789ABCDE''",
        THEN conjunct2, THEN conjunct2, THEN conjunct1]
    by simp
  ultimately show ?thesis
    by (simp only: line_PRP_aid32 simp_thms)
qed

section \<open>PRP lines: base and residue type\<close>

text \<open>
  Claim C8. On a PRP or PRPDC line that has passed the Mersenne or Wagstaff test and
  carries, after how-far-factored and tests-saved, a base token that reads 3 and a
  residue type token that does not read the residue type of the entry, the parser prints
  a warning and nothing else happens: the line is loaded, and the entry that is
  returned is the entry as it was, with its own residue type.
\<close>

theorem prp_residue_mismatch_only_warns:
  assumes kind: "isMersenne entry \<or> isWagstaff entry"
    and base: "stoul tbase = Some vb" "ucast vb = (3 :: 32 word)"
    and rt: "stoul trt = Some vr" "(ucast vr :: 32 word) \<noteq> residueType (options entry)"
  shows "parsePRPtail entry (hff # saved # tbase # trt # others) =
     Loaded entry [ResidueWarning (ucast vr) (residueType (options entry))]"
  using assms by (auto simp: parsePRPtail_def)

lemma line_PRP_residue_5:
  "parseLine validate stod64 ''PRP=1,2,89,-1,70,0,3,5'' =
     parsePRPtail \<lparr> testType = TESTTYPE_PRP, exponent = 89, k = 1, b = 2, c = - 1, aid = [],
                    rawLine = ''PRP=1,2,89,-1,70,0,3,5'', knownFactors = [],
                    options = primality 1 \<rparr> [''70'', ''0'', ''3'', ''5'']"
  by (simp add: line_defs parsePRP_def field_defs conversion_defs)

text \<open>
  The theorem at \<^verbatim>\<open>PRP=1,2,89,-1,70,0,3,5\<close>: the entry has residue type 1, the
  token says 5.
\<close>

theorem prp_residue_mismatch_only_warns_witness:
  "parseLine accept_all no_stod ''PRP=1,2,89,-1,70,0,3,5'' =
     Loaded \<lparr> testType = TESTTYPE_PRP, exponent = 89, k = 1, b = 2, c = - 1, aid = [],
              rawLine = ''PRP=1,2,89,-1,70,0,3,5'', knownFactors = [],
              options = primality 1 \<rparr> [ResidueWarning 5 1]"
  using prp_residue_mismatch_only_warns [where entry = "\<lparr> testType = TESTTYPE_PRP, exponent = 89,
        k = 1, b = 2, c = - 1, aid = [], rawLine = ''PRP=1,2,89,-1,70,0,3,5'', knownFactors = [],
        options = primality 1 \<rparr>"
      and tbase = "''3''" and trt = "''5''" and vb = 3 and vr = 5
      and hff = "''70''" and saved = "''0''" and others = "[]"]
  by (simp add: line_PRP_residue_5 isMersenne_def conversion_defs)

section \<open>PRP lines: Mersenne numbers with known factors\<close>

text \<open>
  Claim C9. A PRP or PRPDC line with k = 1, b = 2, c = -1 that ends with a list of known
  factors has, after k,b,n,c, the list alone, or how-far-factored, tests-saved and the
  list, or these two, base, residue type and the list (1, 3 or 5 tokens, the test of
  line 242). On such a line, the list quoted and with at least one element, the parser
  asks the validation predicate about the exponent and that list. When the predicate
  fails the line is skipped with its reason; when it holds the list becomes the known
  factors, the residue type is set to 5, and the line goes on to the rest of the PRP
  branch. So every entry loaded from such a line has passed the predicate and has
  residue type 5.
\<close>

theorem mersenne_prp_factors_validated:
  assumes kbnc: "parseKbnc entry parts = (True, e1, p1, m1)"
    and mers: "isMersenne e1"
    and form: "p1 = [fl] \<or> p1 = [hff, saved, fl] \<or> p1 = [hff, saved, tbase, trt, fl]"
    and quoted: "parseFactors fl = kf" "kf \<noteq> []"
  shows "parsePRP validate entry parts =
           (if validate (exponent e1) kf
            then parsePRPtail (e1\<lparr>knownFactors := kf, options := primality 5\<rparr>) (butlast p1)
            else Skipped [Reason ''Skip PRP line: invalid known factors for exponent''])
     \<and> (\<forall>e m. parsePRP validate entry parts = Loaded e m \<longrightarrow>
           validate (exponent e1) kf \<and> exponent e = exponent e1 \<and> knownFactors e = kf
           \<and> options e = primality 5)"
proof -
  from form have count: "length p1 = 1 \<or> length p1 = 3 \<or> length p1 = 5"
    and ne: "p1 \<noteq> []" and fl: "last p1 = fl"
    by auto
  have eq: "parsePRP validate entry parts =
           (if validate (exponent e1) kf
            then parsePRPtail (e1\<lparr>knownFactors := kf, options := primality 5\<rparr>) (butlast p1)
            else Skipped [Reason ''Skip PRP line: invalid known factors for exponent''])"
    using kbnc mers count quoted ne fl
    by (simp add: parsePRP_def parsePartsFactors_def isMersenne_def)
  moreover have "\<forall>e m. parsePRP validate entry parts = Loaded e m \<longrightarrow>
           validate (exponent e1) kf \<and> exponent e = exponent e1 \<and> knownFactors e = kf
           \<and> options e = primality 5"
    unfolding eq by (auto split: if_splits dest!: parsePRPtail_Loaded)
  ultimately show ?thesis by blast
qed

lemma kbnc_PRP_89:
  \<open>parseKbnc \<lparr> testType = TESTTYPE_PRP, exponent = 0, k = 0, b = 0, c = 0, aid = [],
               rawLine = ''PRP=1,2,89,-1,"3"'', knownFactors = [], options = primality 1 \<rparr>
     [''1'', ''2'', ''89'', ''-1'', ''"3"''] =
   (True, \<lparr> testType = TESTTYPE_PRP, exponent = 89, k = 1, b = 2, c = - 1, aid = [],
            rawLine = ''PRP=1,2,89,-1,"3"'', knownFactors = [], options = primality 1 \<rparr>,
    [''"3"''], [])\<close>
  by (simp add: parseKbnc_def conversion_defs)

lemma line_PRP_cofactor:
  \<open>parseLine validate stod64 ''PRP=1,2,89,-1,"3"'' =
     parsePRP validate \<lparr> testType = TESTTYPE_PRP, exponent = 0, k = 0, b = 0, c = 0, aid = [],
               rawLine = ''PRP=1,2,89,-1,"3"'', knownFactors = [], options = primality 1 \<rparr>
     [''1'', ''2'', ''89'', ''-1'', ''"3"'']\<close>
  by (simp add: line_defs)

text \<open>
  The theorem at \<^verbatim>\<open>PRP=1,2,89,-1,"3"\<close>, for every validation predicate: the
  entry for exponent 89 with the known factor "3" and residue type 5 when the predicate
  holds of 89 and ["3"], a skip when it does not.
\<close>

theorem mersenne_prp_factors_validated_witness:
  \<open>\<forall>validate. parseLine validate no_stod ''PRP=1,2,89,-1,"3"'' =
     (if validate 89 [''3'']
      then Loaded \<lparr> testType = TESTTYPE_PRP, exponent = 89, k = 1, b = 2, c = - 1, aid = [],
                    rawLine = ''PRP=1,2,89,-1,"3"'', knownFactors = [''3''],
                    options = primality 5 \<rparr> []
      else Skipped [Reason ''Skip PRP line: invalid known factors for exponent''])\<close>
proof
  fix validate :: "32 word \<Rightarrow> string list \<Rightarrow> bool"
  have kf: \<open>parseFactors ''"3"'' = [''3'']\<close>
    by (simp add: parseFactors_def rtrim_def isspace_c_def dquote_def split_def)
  have mers: \<open>isMersenne \<lparr> testType = TESTTYPE_PRP, exponent = 89, k = 1, b = 2, c = - 1,
      aid = [], rawLine = ''PRP=1,2,89,-1,"3"'', knownFactors = [], options = primality 1 \<rparr>\<close>
    by (simp add: isMersenne_def)
  have form: \<open>[''"3"''] = [''"3"''] \<or> [''"3"''] = [hff, saved, ''"3"'']
      \<or> [''"3"''] = [hff, saved, tbase, trt, ''"3"'']\<close> for hff saved tbase trt :: string
    by simp
  have ne: "[''3''] \<noteq> []"
    by simp
  note w = mersenne_prp_factors_validated [OF kbnc_PRP_89 mers form kf ne, of validate,
      THEN conjunct1]
  have \<open>parsePRP validate \<lparr> testType = TESTTYPE_PRP, exponent = 0, k = 0, b = 0, c = 0, aid = [],
               rawLine = ''PRP=1,2,89,-1,"3"'', knownFactors = [], options = primality 1 \<rparr>
     [''1'', ''2'', ''89'', ''-1'', ''"3"''] =
     (if validate 89 [''3'']
      then parsePRPtail \<lparr> testType = TESTTYPE_PRP, exponent = 89, k = 1, b = 2, c = - 1, aid = [],
                    rawLine = ''PRP=1,2,89,-1,"3"'', knownFactors = [''3''],
                    options = primality 5 \<rparr> []
      else Skipped [Reason ''Skip PRP line: invalid known factors for exponent''])\<close>
    unfolding w by simp
  then show \<open>parseLine validate no_stod ''PRP=1,2,89,-1,"3"'' =
     (if validate 89 [''3'']
      then Loaded \<lparr> testType = TESTTYPE_PRP, exponent = 89, k = 1, b = 2, c = - 1, aid = [],
                    rawLine = ''PRP=1,2,89,-1,"3"'', knownFactors = [''3''],
                    options = primality 5 \<rparr> []
      else Skipped [Reason ''Skip PRP line: invalid known factors for exponent''])\<close>
    by (simp add: line_PRP_cofactor parsePRPtail_def isMersenne_def)
qed

section \<open>The known factors of a loaded entry\<close>

lemma quoted_shape:
  assumes "2 \<le> length xs"
  shows "xs = hd xs # take (length xs - 2) (drop 1 xs) @ [last xs]"
proof (cases xs)
  case Nil
  with assms show ?thesis by simp
next
  case (Cons x ys)
  with assms have "ys \<noteq> []" by auto
  then have "ys = butlast ys @ [last ys]" by simp
  moreover have "take (length ys - 1) ys = butlast ys" by (simp add: butlast_conv_take)
  ultimately show ?thesis using Cons \<open>ys \<noteq> []\<close> by simp
qed

lemma parseFactors_nonempty:
  assumes "parseFactors tok \<noteq> []"
  shows "\<exists>content. rtrim tok = dquote # content @ [dquote]
           \<and> parseFactors tok = split content CHR '',''"
proof -
  let ?t = "rtrim tok"
  from assms have q: "2 \<le> length ?t" "hd ?t = dquote" "last ?t = dquote"
    and v: "parseFactors tok = split (take (length ?t - 2) (drop 1 ?t)) CHR '',''"
    by (auto simp: parseFactors_def Let_def split: if_splits)
  from quoted_shape [OF q(1)] q(2,3)
  have "?t = dquote # take (length ?t - 2) (drop 1 ?t) @ [dquote]" by simp
  with v show ?thesis by blast
qed

text \<open>
  The known factors of an entry that \<open>parse\<close> returns are none, or they are what
  \<open>split\<close> returns for the text between the double quotes of one token of the payload
  (after its trailing white space is dropped). The parser itself drops no element and
  rejects none; whether an element can be the empty string is decided by
  \<^verbatim>\<open>util::split\<close> alone. The proof does not look into \<open>split\<close>.
\<close>

lemma known_factors_are_what_split_returns:
  assumes "parse validate stod64 fs filename = Loaded e m"
  shows "knownFactors e = []
     \<or> (\<exists>tok \<in> set (splitRespectingQuotes (split (rawLine e) CHR ''='' ! 1) CHR '','').
          \<exists>content. rtrim tok = dquote # content @ [dquote]
            \<and> knownFactors e = split content CHR '','')"
proof (cases "knownFactors e = []")
  case True
  then show ?thesis by simp
next
  case False
  from parse_Loaded [OF assms] obtain l m' where "parseLine validate stod64 l = Loaded e m'"
    by blast
  from parseLine_Loaded [OF this] False obtain tok
    where raw: "rawLine e = l"
      and tok: "tok \<in> set (splitRespectingQuotes (split l CHR ''='' ! 1) CHR '','')"
      and kf: "knownFactors e = parseFactors tok"
    by auto
  from False kf parseFactors_nonempty [of tok] obtain content
    where "rtrim tok = dquote # content @ [dquote]" "parseFactors tok = split content CHR '',''"
    by auto
  with raw tok kf show ?thesis
    by auto
qed

end
